theory Spec2Isabelle
  imports Main "HOL-Library.Char_ord" "HOL-Library.List_Lexorder"
begin

section \<open>Cary curbside pick up: the schedule engine of \<open>main.go\<close>\<close>

text \<open>
  Go strings are byte sequences: \<^typ>\<open>string\<close>. The order on strings that Go's
  \<open>sort.Strings\<close> and \<open><\<close> use is the bytewise lexicographic one, which is the order of
  \<open>List_Lexorder\<close> over \<open>Char_ord\<close>. Logging (\<open>log.Printf\<close>, \<open>log.Print\<close>) has no
  influence on any returned value and is left out.
\<close>

subsection \<open>Errors\<close>

text \<open>
  A Go \<open>error\<close> built by \<open>errors.New\<close> or \<open>fmt.Errorf\<close> (no \<open>%w\<close> is used in the
  program) is its message. Errors handed over by the libraries are values of the same type.
\<close>

datatype error = Error (message: string)

text \<open>\<open>*time.ParseError\<close>; the program never looks into it.\<close>

datatype ParseError = ParseError (Layout: string) (Val: string)

subsection \<open>\<open>serviceOccurrence\<close> and \<open>GetName\<close>\<close>

record serviceOccurrence =
  day :: string
  name :: string

definition GetName :: "serviceOccurrence \<Rightarrow> string" where
  "GetName s =
     (if name s = ''yardwaste'' then ''Yard Waste''
      else if name s = ''looseleaf'' then ''Leaf Collection''
      else name s)"

subsection \<open>The part of package \<open>time\<close> that \<open>GetFormattedDay\<close> runs\<close>

text \<open>
  A \<open>time.Time\<close> in UTC at midnight, as \<open>time.Parse\<close> with a date-only layout builds it.
  The zero value \<open>time.Time{}\<close> is January 1 of year 1.
\<close>

record Time =
  year :: int
  month :: nat
  mday :: nat

definition zeroTime :: Time where
  "zeroTime = \<lparr>year = 1, month = 1, mday = 1\<rparr>"

definition isDigit :: "string \<Rightarrow> nat \<Rightarrow> bool" where
  "isDigit s i = (if length s \<le> i then False
                  else CHR ''0'' \<le> s ! i \<and> s ! i \<le> CHR ''9'')"

definition digitVal :: "char \<Rightarrow> nat" where
  "digitVal c = of_char c - of_char CHR ''0''"

text \<open>\<open>getnum(s, fixed)\<close>: one or two leading digits; \<open>None\<close> is \<open>errBad\<close>.\<close>

definition getnum :: "string \<Rightarrow> bool \<Rightarrow> (nat \<times> string) option" where
  "getnum s fixed =
     (if \<not> isDigit s 0 then None
      else if \<not> isDigit s 1 then
        (if fixed then None else Some (digitVal (s ! 0), drop 1 s))
      else Some (digitVal (s ! 0) * 10 + digitVal (s ! 1), drop 2 s))"

text \<open>
  The \<open>stdLongYear\<close> case of \<open>time.Parse\<close>: at least four bytes, the first a digit, and
  \<open>atoi\<close> of the first four must consume all of them (a sign is excluded by the first test).
\<close>

definition getLongYear :: "string \<Rightarrow> (nat \<times> string) option" where
  "getLongYear s =
     (if length s < 4 then None
      else if \<not> isDigit s 0 then None
      else if isDigit s 1 \<and> isDigit s 2 \<and> isDigit s 3 then
        Some (digitVal (s ! 0) * 1000 + digitVal (s ! 1) * 100
                + digitVal (s ! 2) * 10 + digitVal (s ! 3), drop 4 s)
      else None)"

text \<open>\<open>skip(value, prefix)\<close> for the one-byte literal prefix \<open>"-"\<close> of the layout.\<close>

definition skipDash :: "string \<Rightarrow> string option" where
  "skipDash s = (case s of [] \<Rightarrow> None
                 | c # rest \<Rightarrow> if c = CHR ''-'' then Some rest else None)"

text \<open>\<open>isLeap\<close>: divisible by 4, and by 400 when divisible by 100.\<close>

definition isLeap :: "int \<Rightarrow> bool" where
  "isLeap y = (y mod 4 = 0 \<and> (if y mod 100 = 0 then y mod 400 = 0 else True))"

text \<open>\<open>daysBefore[m]\<close>: the days of a non-leap year before month \<open>m + 1\<close>.\<close>

definition daysBefore :: "nat list" where
  "daysBefore = [0, 31, 59, 90, 120, 151, 181, 212, 243, 273, 304, 334, 365]"

definition daysIn :: "nat \<Rightarrow> int \<Rightarrow> nat" where
  "daysIn m y = (if m = 2 \<and> isLeap y then 29
                 else daysBefore ! m - daysBefore ! (m - 1))"

text \<open>
  \<open>time.Parse("2006-01-02", value)\<close>: the layout is the chunks \<open>stdLongYear\<close>, \<open>"-"\<close>,
  \<open>stdZeroMonth\<close>, \<open>"-"\<close>, \<open>stdZeroDay\<close>; then no text may remain, and the day must exist in
  the month. Every failure returns \<open>Time{}\<close> with a \<open>ParseError\<close>.
\<close>

definition parseFields :: "string \<Rightarrow> Time option" where
  "parseFields v =
     (case getLongYear v of None \<Rightarrow> None
      | Some (y, v1) \<Rightarrow>
     (case skipDash v1 of None \<Rightarrow> None
      | Some v2 \<Rightarrow>
     (case getnum v2 True of None \<Rightarrow> None
      | Some (m, v3) \<Rightarrow>
        if m \<le> 0 \<or> 12 < m then None
        else
     (case skipDash v3 of None \<Rightarrow> None
      | Some v4 \<Rightarrow>
     (case getnum v4 True of None \<Rightarrow> None
      | Some (d, v5) \<Rightarrow>
        if length v5 \<noteq> 0 then None
        else if d < 1 \<or> d > daysIn m (int y) then None
        else Some \<lparr>year = int y, month = m, mday = d\<rparr>)))))"

definition Parse :: "string \<Rightarrow> Time \<times> ParseError option" where
  "Parse v = (case parseFields v of
                None \<Rightarrow> (zeroTime, Some (ParseError ''2006-01-02'' v))
              | Some t \<Rightarrow> (t, None))"

text \<open>
  The day number of a date in the proleptic Gregorian calendar, counted from January 1 of
  year 1, which is a Monday. Integer division rounds down, so year 0 is handled too.
\<close>

definition daysSinceEpoch :: "Time \<Rightarrow> int" where
  "daysSinceEpoch t =
     (let y = year t - 1 in
      365 * y + y div 4 - y div 100 + y div 400
        + int (daysBefore ! (month t - 1))
        + (if isLeap (year t) \<and> 2 < month t then 1 else 0)
        + (int (mday t) - 1))"

definition longDayNames :: "string list" where
  "longDayNames = [''Monday'', ''Tuesday'', ''Wednesday'', ''Thursday'', ''Friday'',
                   ''Saturday'', ''Sunday'']"

definition Weekday :: "Time \<Rightarrow> string" where
  "Weekday t = longDayNames ! nat (daysSinceEpoch t mod 7)"

definition longMonthNames :: "string list" where
  "longMonthNames = [''January'', ''February'', ''March'', ''April'', ''May'', ''June'',
                     ''July'', ''August'', ''September'', ''October'', ''November'',
                     ''December'']"

fun utoa :: "nat \<Rightarrow> string" where
  "utoa n = (if n < 10 then [''0123456789'' ! n]
             else utoa (n div 10) @ [''0123456789'' ! (n mod 10)])"

text \<open>
  \<open>appendInt(b, x, width)\<close>: the decimal form of \<open>x\<close>, padded with leading zeros to
  \<open>width\<close> digits, after a minus sign when \<open>x\<close> is negative.
\<close>

definition appendInt :: "int \<Rightarrow> nat \<Rightarrow> string" where
  "appendInt x width =
     (let ds = utoa (nat \<bar>x\<bar>) in
      (if x < 0 then ''-'' else '''') @ replicate (width - length ds) CHR ''0'' @ ds)"

text \<open>
  \<open>t.Format("Monday, January 2, 2006")\<close>: the chunks are \<open>stdLongWeekDay\<close>, \<open>", "\<close>,
  \<open>stdLongMonth\<close>, \<open>" "\<close>, \<open>stdDay\<close> (no padding), \<open>", "\<close>, \<open>stdLongYear\<close> (four digits).
\<close>

definition Format :: "Time \<Rightarrow> string" where
  "Format t = Weekday t @ '', '' @ longMonthNames ! (month t - 1) @ '' ''
                @ appendInt (int (mday t)) 0 @ '', '' @ appendInt (year t) 4"

definition GetFormattedDay :: "serviceOccurrence \<Rightarrow> string" where
  "GetFormattedDay s = (let (t, _) = Parse (day s) in Format t)"

subsection \<open>\<open>strings.ToLower\<close> and \<open>url.QueryEscape\<close>\<close>

definition lowerASCII :: "char \<Rightarrow> char" where
  "lowerASCII c = (if CHR ''A'' \<le> c \<and> c \<le> CHR ''Z''
                   then char_of (of_char c + (32::nat)) else c)"

text \<open>
  \<open>shouldEscape(c, encodeQueryComponent)\<close>: everything but the unreserved characters
  (letters, digits and \<open>- _ . ~\<close>) is escaped.
\<close>

definition shouldEscape :: "char \<Rightarrow> bool" where
  "shouldEscape c =
     (if (CHR ''a'' \<le> c \<and> c \<le> CHR ''z'') \<or> (CHR ''A'' \<le> c \<and> c \<le> CHR ''Z'')
           \<or> (CHR ''0'' \<le> c \<and> c \<le> CHR ''9'') then False
      else if c \<in> set ''-_.~'' then False
      else True)"

definition upperhex :: string where
  "upperhex = ''0123456789ABCDEF''"

definition escapeByte :: "char \<Rightarrow> string" where
  "escapeByte c =
     (if c = CHR '' '' then ''+''
      else if shouldEscape c then
        [CHR ''%'', upperhex ! (of_char c div 16), upperhex ! (of_char c mod 16)]
      else [c])"

definition QueryEscape :: "string \<Rightarrow> string" where
  "QueryEscape s = concat (map escapeByte s)"

subsection \<open>What lies outside the program\<close>

text \<open>An \<open>*http.Response\<close>; \<open>ReadAll\<close> is what \<open>io.ReadAll(resp.Body)\<close> returns.\<close>

record httpResponse =
  StatusCode :: nat
  Status :: string
  ReadAll :: "error + string"

record addressItem =
  PlaceID :: string

record flag =
  Name :: string
  ServiceName :: string

record event =
  Day :: string
  Flags :: "flag list"

record eventJSON =
  Events :: "event list"

text \<open>
  The collaborators of one invocation:
  \<^item> \<open>Getenv\<close>: \<open>os.Getenv\<close>;
  \<^item> \<open>Get\<close>: \<open>client.Get(url)\<close> of an \<open>http.Client\<close> with a 30 second timeout; \<open>Inl\<close> is
    the transport-level failure (a timeout included);
  \<^item> \<open>after\<close> and \<open>before\<close>: \<open>time.Now().Format("2006-01-02")\<close> and
    \<open>time.Now().AddDate(0, 1, 0).Format("2006-01-02")\<close>;
  \<^item> \<open>unmarshalAddresses\<close> and \<open>unmarshalEvents\<close>: \<open>json.Unmarshal\<close> into
    \<open>[]addressItem\<close> and into \<open>eventJSON\<close>;
  \<^item> \<open>mapLower\<close>: \<open>strings.Map(unicode.ToLower, s)\<close>, the path \<open>strings.ToLower\<close> takes
    for a string with a byte outside ASCII.
\<close>

record world =
  Getenv :: "string \<Rightarrow> string"
  Get :: "string \<Rightarrow> error + httpResponse"
  after :: string
  before :: string
  unmarshalAddresses :: "string \<Rightarrow> error + addressItem list"
  unmarshalEvents :: "string \<Rightarrow> error + eventJSON"
  mapLower :: "string \<Rightarrow> string"

text \<open>
  \<open>strings.ToLower\<close>: a string of ASCII bytes only has its upper-case letters replaced;
  any other string goes through the Unicode mapping.
\<close>

definition ToLower :: "world \<Rightarrow> string \<Rightarrow> string" where
  "ToLower w s = (if list_all (\<lambda>c. of_char c < (128::nat)) s then map lowerASCII s
                  else mapLower w s)"

subsection \<open>The Alexa envelope\<close>

text \<open>
  Of \<open>alexa.Request\<close> the dispatcher reads the intent name and the slots; indexing a Go map
  at a missing key gives the zero value, a \<open>Slot\<close> whose \<open>Value\<close> is the empty string.
  \<open>alexa.NewSimpleResponse(title, text)\<close> is the pair of the card title and the spoken text.
\<close>

record Slot =
  Value :: string

record Intent =
  IntentName :: string
  Slots :: "string \<rightharpoonup> Slot"

record ReqBody =
  Intent :: Intent

record Request =
  Body :: ReqBody

record Response =
  Title :: string
  Text :: string

definition NewSimpleResponse :: "string \<Rightarrow> string \<Rightarrow> Response" where
  "NewSimpleResponse title text = \<lparr>Title = title, Text = text\<rparr>"

datatype panic = Panic string

subsection \<open>\<open>getAddressID\<close>\<close>

definition addressURL :: "string \<Rightarrow> string" where
  "addressURL address =
     ''https://api.recollect.net/api/areas/CaryNC/services/1087/address-suggest?q=''
       @ QueryEscape address"

definition getAddressID :: "world \<Rightarrow> string \<Rightarrow> error + string" where
  "getAddressID w address =
     (case Get w (addressURL address) of
        Inl err \<Rightarrow> Inl err
      | Inr resp \<Rightarrow>
          if StatusCode resp \<noteq> 200 then
            Inl (Error (''failed to find the address: '' @ Status resp))
          else
            (case ReadAll resp of
               Inl err \<Rightarrow> Inl (Error (''failed to find the address: '' @ message err))
             | Inr body \<Rightarrow>
                 (case unmarshalAddresses w body of
                    Inl err \<Rightarrow>
                      Inl (Error (''failed to unmarshall the response: '' @ message err))
                  | Inr addresses \<Rightarrow>
                      if length addresses = 0 then
                        Inl (Error (''the address wasn'' @ [CHR 0x27] @ ''t found''))
                      else Inr (PlaceID (addresses ! 0)))))"

subsection \<open>\<open>getThirtyDaySchedule\<close>\<close>

definition scheduleURL :: "string \<Rightarrow> string \<Rightarrow> string \<Rightarrow> string" where
  "scheduleURL addressID aft bef =
     ''https://api.recollect.net/api/places/'' @ addressID
       @ ''/services/1087/events?nomerge=1&hide=reminder_only&after='' @ aft
       @ ''&before='' @ bef"

text \<open>
  The inner loop over \<open>event.Flags\<close>: the first flag of the service \<open>waste\<close> appends an
  occurrence and breaks.
\<close>

fun flagsLoop :: "string \<Rightarrow> flag list \<Rightarrow> serviceOccurrence list \<Rightarrow> serviceOccurrence list"
  where
  "flagsLoop d [] occurrences = occurrences"
| "flagsLoop d (f # fs) occurrences =
     (if ServiceName f = ''waste'' then occurrences @ [\<lparr>day = d, name = Name f\<rparr>]
      else flagsLoop d fs occurrences)"

text \<open>The outer loop over \<open>rvJSON.Events\<close>.\<close>

fun eventsLoop :: "event list \<Rightarrow> serviceOccurrence list \<Rightarrow> serviceOccurrence list" where
  "eventsLoop [] occurrences = occurrences"
| "eventsLoop (e # es) occurrences = eventsLoop es (flagsLoop (Day e) (Flags e) occurrences)"

text \<open>
  A failed \<open>client.Get\<close> returns \<open>nil, nil\<close>: the nil slice, and no error.
\<close>

definition getThirtyDaySchedule :: "world \<Rightarrow> string \<Rightarrow> error + serviceOccurrence list" where
  "getThirtyDaySchedule w address =
     (case getAddressID w address of
        Inl err \<Rightarrow> Inl err
      | Inr addressID \<Rightarrow>
          (case Get w (scheduleURL addressID (after w) (before w)) of
             Inl err \<Rightarrow> Inr []
           | Inr resp \<Rightarrow>
               if StatusCode resp \<noteq> 200 then
                 Inl (Error (''failed to get the schedule: '' @ Status resp))
               else
                 (case ReadAll resp of
                    Inl err \<Rightarrow> Inl (Error ''failed to get the schedule'')
                  | Inr body \<Rightarrow>
                      (case unmarshalEvents w body of
                         Inl err \<Rightarrow>
                           Inl (Error (''failed to unmarshall the response: '' @ message err))
                       | Inr rvJSON \<Rightarrow> Inr (eventsLoop (Events rvJSON) [])))))"

subsection \<open>\<open>handleGetSchedule\<close>\<close>

text \<open>The loop over the occurrences; \<open>Some\<close> is the \<open>return\<close> inside it.\<close>

fun scheduleLoop :: "world \<Rightarrow> string \<Rightarrow> serviceOccurrence list \<Rightarrow> Response option" where
  "scheduleLoop w serviceTypeLower [] = None"
| "scheduleLoop w serviceTypeLower (occurrence # rest) =
     (if ToLower w (GetName occurrence) = serviceTypeLower then
        Some (NewSimpleResponse
                (GetName occurrence @ '' Curbside Pick Up'')
                (''Curbside pick up for '' @ serviceTypeLower @ '' is on ''
                   @ GetFormattedDay occurrence @ ''.''))
      else scheduleLoop w serviceTypeLower rest)"

definition handleGetSchedule :: "world \<Rightarrow> string \<Rightarrow> string \<Rightarrow> error + Response" where
  "handleGetSchedule w address serviceType =
     (case getThirtyDaySchedule w address of
        Inl err \<Rightarrow> Inl err
      | Inr occurrences \<Rightarrow>
          (case scheduleLoop w (ToLower w serviceType) occurrences of
             Some response \<Rightarrow> Inr response
           | None \<Rightarrow>
               Inr (NewSimpleResponse
                      (serviceType @ '' Curbside Pick Up'')
                      (''Curbside pick up for '' @ serviceType
                         @ '' is not scheduled in the next 30 days.''))))"

subsection \<open>\<open>handleWhatIsNext\<close>\<close>

text \<open>
  The first loop, with its index and the two variables it assigns: \<open>pickUpDate\<close> and
  \<open>serviceNames\<close>.
\<close>

fun collectLoop ::
  "nat \<Rightarrow> serviceOccurrence list \<Rightarrow> string \<times> string list \<Rightarrow> string \<times> string list" where
  "collectLoop i [] st = st"
| "collectLoop i (occurrence # rest) (pickUpDate, serviceNames) =
     (if i = 0 then
        collectLoop (Suc i) rest (GetFormattedDay occurrence, serviceNames @ [name occurrence])
      else if pickUpDate \<noteq> GetFormattedDay occurrence then (pickUpDate, serviceNames)
      else collectLoop (Suc i) rest (pickUpDate, serviceNames @ [name occurrence]))"

text \<open>
  The second loop, over the sorted names: \<open>n\<close> is \<open>len(serviceNames)\<close>, \<open>msg\<close> the message
  so far.
\<close>

fun joinLoop :: "world \<Rightarrow> nat \<Rightarrow> nat \<Rightarrow> string list \<Rightarrow> string \<Rightarrow> string" where
  "joinLoop w n i [] msg = msg"
| "joinLoop w n i (s # rest) msg =
     joinLoop w n (Suc i) rest
       (if i \<noteq> 0 \<and> i + 1 = n then msg @ '', and '' @ ToLower w s
        else if i + 1 \<noteq> n then msg @ '', '' @ ToLower w s
        else msg @ '' '' @ ToLower w s @ ''.'')"

text \<open>Lines 98 to 111: the message for a non-empty \<open>serviceNames\<close>.\<close>

definition scheduleMessage :: "world \<Rightarrow> string \<Rightarrow> string list \<Rightarrow> string" where
  "scheduleMessage w pickUpDate serviceNames =
     joinLoop w (length serviceNames) 0 (sort serviceNames)
       (''On '' @ pickUpDate @ '', there will be curb side pick up for: '')"

definition handleWhatIsNext :: "world \<Rightarrow> string \<Rightarrow> error + Response" where
  "handleWhatIsNext w address =
     (case getThirtyDaySchedule w address of
        Inl err \<Rightarrow> Inl err
      | Inr occurrences \<Rightarrow>
          (let (pickUpDate, serviceNames) = collectLoop 0 occurrences ('''', []) in
           if length serviceNames = 0 then
             Inr (NewSimpleResponse ''No Curbside Pick Up''
                    ''No curbside pick up is scheduled in the next 30 days.'')
           else
             Inr (NewSimpleResponse ''Curbside Pick Up Schedule''
                    (scheduleMessage w pickUpDate serviceNames))))"

subsection \<open>\<open>intentDispatcher\<close>\<close>

definition helpMsg :: string where
  "helpMsg = ''You can say things like what'' @ [CHR 0x27] @ ''s next or when''
               @ [CHR 0x27] @ ''s recycling. The four supported collection types are: ''
               @ ''garbage, recycling, yard waste, and leaf collection.''"

text \<open>\<open>Inl\<close> is the panic of \<open>log.Panic\<close>; \<open>Inr\<close> the returned pair.\<close>

definition intentDispatcher :: "world \<Rightarrow> Request \<Rightarrow> panic + (error + Response)" where
  "intentDispatcher w request =
     (let address = Getenv w ''STREET_ADDRESS'' in
      if address = '''' then Inl (Panic ''the address is not configured'')
      else if IntentName (Intent (Body request)) = ''GetSchedule'' then
        (let serviceType =
               (case Slots (Intent (Body request)) ''collectionType'' of
                  None \<Rightarrow> ''''
                | Some slot \<Rightarrow> Value slot)
         in Inr (handleGetSchedule w address serviceType))
      else if IntentName (Intent (Body request)) = ''WhatIsNext'' then
        Inr (handleWhatIsNext w address)
      else if IntentName (Intent (Body request)) = ''AMAZON.HelpIntent'' then
        Inr (Inr (NewSimpleResponse ''Help'' helpMsg))
      else
        Inr (Inr (NewSimpleResponse ''Unknown Request'' ''The intent was unrecognized'')))"

section \<open>The specification's notions\<close>

subsection \<open>A valid \<open>YYYY-MM-DD\<close> date\<close>

text \<open>
  Ten bytes: four decimal digits, a dash, two digits, a dash, two digits; the month is
  between 1 and 12 and the day exists in that month of that year.
\<close>

definition isDecimal :: "char \<Rightarrow> bool" where
  "isDecimal c = (CHR ''0'' \<le> c \<and> c \<le> CHR ''9'')"

definition decimalValue :: "string \<Rightarrow> nat" where
  "decimalValue s = foldl (\<lambda>n c. 10 * n + (of_char c - 48)) 0 s"

definition leapYear :: "nat \<Rightarrow> bool" where
  "leapYear y = (if 100 dvd y then 400 dvd y else 4 dvd y)"

definition monthLength :: "nat \<Rightarrow> nat \<Rightarrow> nat" where
  "monthLength y m =
     (if m = 2 then (if leapYear y then 29 else 28)
      else if m \<in> {4, 6, 9, 11} then 30
      else 31)"

definition validDate :: "string \<Rightarrow> bool" where
  "validDate s =
     (length s = 10
      \<and> list_all isDecimal (take 4 s) \<and> s ! 4 = CHR ''-''
      \<and> list_all isDecimal (take 2 (drop 5 s)) \<and> s ! 7 = CHR ''-''
      \<and> list_all isDecimal (drop 8 s)
      \<and> (let y = decimalValue (take 4 s);
              m = decimalValue (take 2 (drop 5 s));
              d = decimalValue (drop 8 s)
          in 1 \<le> m \<and> m \<le> 12 \<and> 1 \<le> d \<and> d \<le> monthLength y m))"

subsection \<open>The filtering rule\<close>

text \<open>
  Of each event the first flag tagged \<open>waste\<close>, when there is one; the events that have
  one, in their order, each with that flag's name.
\<close>

definition firstWasteFlag :: "event \<Rightarrow> flag option" where
  "firstWasteFlag e = find (\<lambda>f. ServiceName f = ''waste'') (Flags e)"

definition wasteOccurrences :: "event list \<Rightarrow> serviceOccurrence list" where
  "wasteOccurrences events =
     List.map_filter
       (\<lambda>e. map_option (\<lambda>f. \<lparr>day = Day e, name = Name f\<rparr>) (firstWasteFlag e)) events"

section \<open>Sample upstreams\<close>

definition okResponse :: "string \<Rightarrow> httpResponse" where
  "okResponse body = \<lparr>StatusCode = 200, Status = ''200 OK'', ReadAll = Inr body\<rparr>"

text \<open>
  An upstream that knows the README's address: the address lookup decodes to
  \<open>addresses\<close>, the events request for the place \<open>PLACE\<close> has the outcome
  \<open>scheduleResult\<close>, and its body decodes to \<open>events\<close>.
\<close>

definition sampleWorld :: "addressItem list \<Rightarrow> error + httpResponse \<Rightarrow> event list \<Rightarrow> world"
  where
  "sampleWorld addresses scheduleResult events =
     \<lparr>Getenv = (\<lambda>key. if key = ''STREET_ADDRESS'' then ''1260 NW Maynard Rd'' else ''''),
      Get = (\<lambda>url.
        if url = addressURL ''1260 NW Maynard Rd'' then Inr (okResponse ''address body'')
        else if url = scheduleURL ''PLACE'' ''2025-03-05'' ''2025-04-05'' then scheduleResult
        else Inl (Error ''no such host'')),
      after = ''2025-03-05'',
      before = ''2025-04-05'',
      unmarshalAddresses = (\<lambda>body. Inr addresses),
      unmarshalEvents = (\<lambda>body. Inr \<lparr>Events = events\<rparr>),
      mapLower = (\<lambda>s. s)\<rparr>"

definition wasteFlag :: "string \<Rightarrow> flag" where
  "wasteFlag n = \<lparr>Name = n, ServiceName = ''waste''\<rparr>"

text \<open>The event list of the specification's end-to-end property.\<close>

definition marchEvents :: "event list" where
  "marchEvents =
     [\<lparr>Day = ''2025-03-10'', Flags = [wasteFlag ''Garbage'']\<rparr>,
      \<lparr>Day = ''2025-03-10'', Flags = [wasteFlag ''Recycling'']\<rparr>,
      \<lparr>Day = ''2025-03-17'', Flags = [wasteFlag ''Garbage'']\<rparr>]"

definition marchWorld :: world where
  "marchWorld = sampleWorld [\<lparr>PlaceID = ''PLACE''\<rparr>] (Inr (okResponse ''events body''))
                  marchEvents"

text \<open>Events with flags of other services, two waste flags on one event, and none.\<close>

definition mixedEvents :: "event list" where
  "mixedEvents =
     [\<lparr>Day = ''2025-03-10'',
       Flags = [\<lparr>Name = ''holiday'', ServiceName = ''notice''\<rparr>, wasteFlag ''Garbage'',
                wasteFlag ''Recycling'']\<rparr>,
      \<lparr>Day = ''2025-03-12'', Flags = [\<lparr>Name = ''sweeping'', ServiceName = ''streets''\<rparr>]\<rparr>,
      \<lparr>Day = ''2025-03-14'', Flags = []\<rparr>,
      \<lparr>Day = ''2025-03-17'', Flags = [wasteFlag ''yardwaste'']\<rparr>]"

definition mixedWorld :: world where
  "mixedWorld = sampleWorld [\<lparr>PlaceID = ''PLACE''\<rparr>] (Inr (okResponse ''events body''))
                  mixedEvents"

text \<open>The events request fails in transport.\<close>

definition timeoutWorld :: world where
  "timeoutWorld = sampleWorld [\<lparr>PlaceID = ''PLACE''\<rparr>]
                    (Inl (Error ''context deadline exceeded'')) marchEvents"

definition getScheduleRequest :: "(string \<rightharpoonup> Slot) \<Rightarrow> Request" where
  "getScheduleRequest slots =
     \<lparr>Body = \<lparr>Intent = \<lparr>IntentName = ''GetSchedule'', Slots = slots\<rparr>\<rparr>\<rparr>"

text \<open>The upstream has no events in the window.\<close>

definition quietWorld :: world where
  "quietWorld = sampleWorld [\<lparr>PlaceID = ''PLACE''\<rparr>] (Inr (okResponse ''events body'')) []"

text \<open>The address lookup decodes to the empty array.\<close>

definition unknownAddressWorld :: world where
  "unknownAddressWorld = sampleWorld [] (Inr (okResponse ''events body'')) marchEvents"

text \<open>The street address is not configured.\<close>

definition unconfiguredWorld :: world where
  "unconfiguredWorld = marchWorld\<lparr>Getenv := (\<lambda>key. '''')\<rparr>"

section \<open>Properties\<close>

subsection \<open>Display names\<close>

text \<open>
  Claim C6. \<open>GetName\<close> maps the code \<open>yardwaste\<close> to \<open>Yard Waste\<close> and \<open>looseleaf\<close> to
  \<open>Leaf Collection\<close>; every other code passes through unchanged.
\<close>

theorem GetName_table:
  "(name s = ''yardwaste'' \<longrightarrow> GetName s = ''Yard Waste'')
   \<and> (name s = ''looseleaf'' \<longrightarrow> GetName s = ''Leaf Collection'')
   \<and> (name s \<noteq> ''yardwaste'' \<and> name s \<noteq> ''looseleaf'' \<longrightarrow> GetName s = name s)"
  by (simp add: GetName_def)

theorem GetName_table_witness:
  "GetName \<lparr>day = ''2021-06-22'', name = ''yardwaste''\<rparr> = ''Yard Waste''
   \<and> GetName \<lparr>day = ''2021-06-22'', name = ''looseleaf''\<rparr> = ''Leaf Collection''
   \<and> GetName \<lparr>day = ''2021-06-22'', name = ''Garbage''\<rparr> = ''Garbage''"
  using GetName_table [of "\<lparr>day = ''2021-06-22'', name = ''yardwaste''\<rparr>"]
    GetName_table [of "\<lparr>day = ''2021-06-22'', name = ''looseleaf''\<rparr>"]
    GetName_table [of "\<lparr>day = ''2021-06-22'', name = ''Garbage''\<rparr>"]
  by simp

subsection \<open>Building the occurrences\<close>

lemma flagsLoop_find:
  "flagsLoop d fs occs =
     occs @ (case find (\<lambda>f. ServiceName f = ''waste'') fs of
               None \<Rightarrow> [] | Some f \<Rightarrow> [\<lparr>day = d, name = Name f\<rparr>])"
  by (induction fs) simp_all

lemma wasteOccurrences_Nil: "wasteOccurrences [] = []"
  by (simp add: wasteOccurrences_def map_filter_simps)

lemma wasteOccurrences_Cons:
  "wasteOccurrences (e # es) =
     (case firstWasteFlag e of None \<Rightarrow> [] | Some f \<Rightarrow> [\<lparr>day = Day e, name = Name f\<rparr>])
       @ wasteOccurrences es"
  by (simp add: wasteOccurrences_def map_filter_simps split: option.splits)

lemma eventsLoop_append: "eventsLoop evs occs = occs @ wasteOccurrences evs"
proof (induction evs arbitrary: occs)
  case Nil
  show ?case by (simp add: wasteOccurrences_Nil)
next
  case (Cons e es)
  show ?case
    by (simp add: Cons.IH flagsLoop_find wasteOccurrences_Cons firstWasteFlag_def)
qed

text \<open>
  Claim C5. When the events request succeeds and its body decodes, the occurrences are
  built from the raw events by the filtering rule: of each event the first flag tagged
  \<open>waste\<close> only, events without one dropped, one occurrence per surviving pair of day and
  flag name, in the upstream order.
\<close>

theorem getThirtyDaySchedule_occurrences:
  assumes "getAddressID w address = Inr addressID"
    and "Get w (scheduleURL addressID (after w) (before w)) = Inr resp"
    and "StatusCode resp = 200"
    and "ReadAll resp = Inr body"
    and "unmarshalEvents w body = Inr rvJSON"
  shows "getThirtyDaySchedule w address = Inr (wasteOccurrences (Events rvJSON))"
  using assms by (simp add: getThirtyDaySchedule_def eventsLoop_append)

theorem getThirtyDaySchedule_occurrences_witness:
  "getAddressID mixedWorld ''1260 NW Maynard Rd'' = Inr ''PLACE''
   \<and> Get mixedWorld (scheduleURL ''PLACE'' (after mixedWorld) (before mixedWorld))
       = Inr (okResponse ''events body'')
   \<and> unmarshalEvents mixedWorld ''events body'' = Inr \<lparr>Events = mixedEvents\<rparr>
   \<and> wasteOccurrences mixedEvents =
       [\<lparr>day = ''2025-03-10'', name = ''Garbage''\<rparr>,
        \<lparr>day = ''2025-03-17'', name = ''yardwaste''\<rparr>]
   \<and> getThirtyDaySchedule mixedWorld ''1260 NW Maynard Rd'' =
       Inr (wasteOccurrences mixedEvents)"
proof -
  have a: "getAddressID mixedWorld ''1260 NW Maynard Rd'' = Inr ''PLACE''"
    by code_simp
  have g: "Get mixedWorld (scheduleURL ''PLACE'' (after mixedWorld) (before mixedWorld))
             = Inr (okResponse ''events body'')"
    by code_simp
  have s: "StatusCode (okResponse ''events body'') = 200"
    by (simp add: okResponse_def)
  have r: "ReadAll (okResponse ''events body'') = Inr ''events body''"
    by (simp add: okResponse_def)
  have u: "unmarshalEvents mixedWorld ''events body'' = Inr \<lparr>Events = mixedEvents\<rparr>"
    by (simp add: mixedWorld_def sampleWorld_def)
  have v: "wasteOccurrences mixedEvents =
       [\<lparr>day = ''2025-03-10'', name = ''Garbage''\<rparr>,
        \<lparr>day = ''2025-03-17'', name = ''yardwaste''\<rparr>]"
    by code_simp
  have "getThirtyDaySchedule mixedWorld ''1260 NW Maynard Rd'' =
          Inr (wasteOccurrences (Events \<lparr>Events = mixedEvents\<rparr>))"
    by (rule getThirtyDaySchedule_occurrences [OF a g s r u])
  then have "getThirtyDaySchedule mixedWorld ''1260 NW Maynard Rd'' =
          Inr (wasteOccurrences mixedEvents)"
    by simp
  with a g u v show ?thesis by blast
qed

subsection \<open>Address resolution\<close>

text \<open>
  Claim C8. When the address lookup succeeds and its body decodes to a candidate array,
  \<open>getAddressID\<close> returns the place identifier of the first candidate, and fails with the
  error \<open>the address wasn't found\<close> when the array is empty.
\<close>

theorem getAddressID_first_candidate:
  assumes "Get w (addressURL address) = Inr resp"
    and "StatusCode resp = 200"
    and "ReadAll resp = Inr body"
    and "unmarshalAddresses w body = Inr addresses"
  shows "getAddressID w address =
           (case addresses of
              [] \<Rightarrow> Inl (Error (''the address wasn'' @ [CHR 0x27] @ ''t found''))
            | first # others \<Rightarrow> Inr (PlaceID first))"
  using assms by (simp add: getAddressID_def split: list.splits)

theorem getAddressID_first_candidate_witness:
  "Get marchWorld (addressURL ''1260 NW Maynard Rd'') = Inr (okResponse ''address body'')
   \<and> unmarshalAddresses marchWorld ''address body'' = Inr [\<lparr>PlaceID = ''PLACE''\<rparr>]
   \<and> getAddressID marchWorld ''1260 NW Maynard Rd'' = Inr ''PLACE''
   \<and> unmarshalAddresses unknownAddressWorld ''address body'' = Inr []
   \<and> getAddressID unknownAddressWorld ''1260 NW Maynard Rd'' =
       Inl (Error (''the address wasn'' @ [CHR 0x27] @ ''t found''))"
proof -
  have s: "StatusCode (okResponse ''address body'') = 200"
    by (simp add: okResponse_def)
  have r: "ReadAll (okResponse ''address body'') = Inr ''address body''"
    by (simp add: okResponse_def)
  have g: "Get marchWorld (addressURL ''1260 NW Maynard Rd'') = Inr (okResponse ''address body'')"
    by (simp add: marchWorld_def sampleWorld_def)
  have u: "unmarshalAddresses marchWorld ''address body'' = Inr [\<lparr>PlaceID = ''PLACE''\<rparr>]"
    by (simp add: marchWorld_def sampleWorld_def)
  have g': "Get unknownAddressWorld (addressURL ''1260 NW Maynard Rd'')
              = Inr (okResponse ''address body'')"
    by (simp add: unknownAddressWorld_def sampleWorld_def)
  have u': "unmarshalAddresses unknownAddressWorld ''address body'' = Inr []"
    by (simp add: unknownAddressWorld_def sampleWorld_def)
  have 1: "getAddressID marchWorld ''1260 NW Maynard Rd'' = Inr ''PLACE''"
    using getAddressID_first_candidate [OF g s r u] by simp
  have 2: "getAddressID unknownAddressWorld ''1260 NW Maynard Rd'' =
       Inl (Error (''the address wasn'' @ [CHR 0x27] @ ''t found''))"
    using getAddressID_first_candidate [OF g' s r u'] by simp
  from g u 1 u' 2 show ?thesis by blast
qed

subsection \<open>\<open>GetSchedule\<close>\<close>

lemma scheduleLoop_find:
  "scheduleLoop w l occs =
     map_option
       (\<lambda>oc. \<lparr>Title = GetName oc @ '' Curbside Pick Up'',
              Text = ''Curbside pick up for '' @ l @ '' is on '' @ GetFormattedDay oc @ ''.''\<rparr>)
       (find (\<lambda>oc. ToLower w (GetName oc) = l) occs)"
  by (induction occs) (simp_all add: NewSimpleResponse_def)

text \<open>
  Claim C4. On a fetched occurrence sequence, \<open>handleGetSchedule\<close> answers from the first
  occurrence whose display name equals the requested type after lower-casing both: the
  title is the display name followed by \<open>Curbside Pick Up\<close>, the answer names the
  lower-cased type and the formatted day. When no occurrence matches, title and answer carry
  the requested type as the caller wrote it.
\<close>

theorem handleGetSchedule_first_match:
  assumes "getThirtyDaySchedule w address = Inr occurrences"
  shows "handleGetSchedule w address serviceType =
     (case find (\<lambda>oc. ToLower w (GetName oc) = ToLower w serviceType) occurrences of
        Some oc \<Rightarrow>
          Inr \<lparr>Title = GetName oc @ '' Curbside Pick Up'',
                Text = ''Curbside pick up for '' @ ToLower w serviceType @ '' is on ''
                         @ GetFormattedDay oc @ ''.''\<rparr>
      | None \<Rightarrow>
          Inr \<lparr>Title = serviceType @ '' Curbside Pick Up'',
                Text = ''Curbside pick up for '' @ serviceType
                         @ '' is not scheduled in the next 30 days.''\<rparr>)"
  using assms
  by (simp add: handleGetSchedule_def scheduleLoop_find NewSimpleResponse_def
      split: option.splits)

lemma marchWorld_schedule:
  "getThirtyDaySchedule marchWorld ''1260 NW Maynard Rd'' =
     Inr [\<lparr>day = ''2025-03-10'', name = ''Garbage''\<rparr>,
          \<lparr>day = ''2025-03-10'', name = ''Recycling''\<rparr>,
          \<lparr>day = ''2025-03-17'', name = ''Garbage''\<rparr>]"
  by code_simp

theorem handleGetSchedule_first_match_witness:
  "getThirtyDaySchedule marchWorld ''1260 NW Maynard Rd'' =
     Inr [\<lparr>day = ''2025-03-10'', name = ''Garbage''\<rparr>,
          \<lparr>day = ''2025-03-10'', name = ''Recycling''\<rparr>,
          \<lparr>day = ''2025-03-17'', name = ''Garbage''\<rparr>]
   \<and> handleGetSchedule marchWorld ''1260 NW Maynard Rd'' ''Recycling'' =
       Inr \<lparr>Title = ''Recycling Curbside Pick Up'',
             Text = ''Curbside pick up for recycling is on Monday, March 10, 2025.''\<rparr>
   \<and> handleGetSchedule marchWorld ''1260 NW Maynard Rd'' ''recycling'' =
       Inr \<lparr>Title = ''Recycling Curbside Pick Up'',
             Text = ''Curbside pick up for recycling is on Monday, March 10, 2025.''\<rparr>
   \<and> handleGetSchedule marchWorld ''1260 NW Maynard Rd'' ''Yard Waste'' =
       Inr \<lparr>Title = ''Yard Waste Curbside Pick Up'',
             Text = ''Curbside pick up for Yard Waste is not scheduled in the next 30 days.''\<rparr>"
proof -
  let ?occs = "[\<lparr>day = ''2025-03-10'', name = ''Garbage''\<rparr>,
          \<lparr>day = ''2025-03-10'', name = ''Recycling''\<rparr>,
          \<lparr>day = ''2025-03-17'', name = ''Garbage''\<rparr>]"
  let ?answer = "\<lambda>serviceType.
     (case find (\<lambda>oc. ToLower marchWorld (GetName oc) = ToLower marchWorld serviceType) ?occs of
        Some oc \<Rightarrow>
          Inr \<lparr>Title = GetName oc @ '' Curbside Pick Up'',
                Text = ''Curbside pick up for '' @ ToLower marchWorld serviceType @ '' is on ''
                         @ GetFormattedDay oc @ ''.''\<rparr>
      | None \<Rightarrow>
          Inr \<lparr>Title = serviceType @ '' Curbside Pick Up'',
                Text = ''Curbside pick up for '' @ serviceType
                         @ '' is not scheduled in the next 30 days.''\<rparr>) :: error + Response"
  note h = marchWorld_schedule
  have 1: "?answer ''Recycling'' =
       Inr \<lparr>Title = ''Recycling Curbside Pick Up'',
             Text = ''Curbside pick up for recycling is on Monday, March 10, 2025.''\<rparr>"
    by code_simp
  have 2: "?answer ''recycling'' =
       Inr \<lparr>Title = ''Recycling Curbside Pick Up'',
             Text = ''Curbside pick up for recycling is on Monday, March 10, 2025.''\<rparr>"
    by code_simp
  have 3: "?answer ''Yard Waste'' =
       Inr \<lparr>Title = ''Yard Waste Curbside Pick Up'',
             Text = ''Curbside pick up for Yard Waste is not scheduled in the next 30 days.''\<rparr>"
    by code_simp
  note t = handleGetSchedule_first_match [OF h]
  from h t [of "''Recycling''", THEN trans, OF 1] t [of "''recycling''", THEN trans, OF 2]
    t [of "''Yard Waste''", THEN trans, OF 3]
  show ?thesis by blast
qed

subsection \<open>\<open>WhatIsNext\<close>\<close>

text \<open>
  Claim C7. When the fetched occurrence sequence is empty, \<open>handleWhatIsNext\<close> returns,
  without an error, the title \<open>No Curbside Pick Up\<close> and the answer
  \<open>No curbside pick up is scheduled in the next 30 days.\<close>
\<close>

theorem handleWhatIsNext_empty:
  assumes "getThirtyDaySchedule w address = Inr []"
  shows "handleWhatIsNext w address =
           Inr \<lparr>Title = ''No Curbside Pick Up'',
                 Text = ''No curbside pick up is scheduled in the next 30 days.''\<rparr>"
  using assms by (simp add: handleWhatIsNext_def NewSimpleResponse_def)

theorem handleWhatIsNext_empty_witness:
  "getThirtyDaySchedule quietWorld ''1260 NW Maynard Rd'' = Inr []
   \<and> handleWhatIsNext quietWorld ''1260 NW Maynard Rd'' =
       Inr \<lparr>Title = ''No Curbside Pick Up'',
             Text = ''No curbside pick up is scheduled in the next 30 days.''\<rparr>"
proof -
  have h: "getThirtyDaySchedule quietWorld ''1260 NW Maynard Rd'' = Inr []"
    by code_simp
  from h handleWhatIsNext_empty [OF h] show ?thesis by (rule conjI)
qed

subsection \<open>A request without the slot\<close>

lemma ToLower_Nil: "ToLower w [] = []"
  by (simp add: ToLower_def)

lemma ToLower_eq_Nil:
  assumes "\<forall>s. s \<noteq> [] \<longrightarrow> mapLower w s \<noteq> []"
  shows "ToLower w s = [] \<longleftrightarrow> s = []"
proof (cases "list_all (\<lambda>c. of_char c < (128::nat)) s")
  case True
  then show ?thesis by (simp add: ToLower_def)
next
  case False
  then have "s \<noteq> []" by auto
  moreover from this have "mapLower w s \<noteq> []" using assms by blast
  ultimately show ?thesis using False by (simp add: ToLower_def)
qed

lemma scheduleLoop_no_match:
  assumes "\<forall>oc\<in>set occs. ToLower w (GetName oc) \<noteq> l"
  shows "scheduleLoop w l occs = None"
  using assms by (induction occs) simp_all

text \<open>
  The claim C10 as it is written fails: a request without the slot gets the error of a
  failed fetch, and the panic of a missing address, like any other request.
\<close>

theorem intentDispatcher_missing_slot_counterexample:
  "IntentName (Intent (Body (getScheduleRequest Map.empty))) = ''GetSchedule''
   \<and> Slots (Intent (Body (getScheduleRequest Map.empty))) ''collectionType'' = None
   \<and> intentDispatcher unknownAddressWorld (getScheduleRequest Map.empty) =
       Inr (Inl (Error (''the address wasn'' @ [CHR 0x27] @ ''t found'')))
   \<and> intentDispatcher unconfiguredWorld (getScheduleRequest Map.empty) =
       Inl (Panic ''the address is not configured'')"
  by code_simp

text \<open>
  Claim C10, amended. For a \<open>GetSchedule\<close> request without the \<open>collectionType\<close> slot:
  the dispatcher panics when the street address is not configured, and otherwise calls
  the handler with the empty string as the service type. The handler returns an error
  when the schedule fetch does, that same error, and otherwise completes without one; on a
  fetched occurrence sequence in which no display name is empty it returns the no-match
  answer with an empty service type. (The last part rests on lower-casing mapping no
  non-empty string to the empty one: \<open>strings.Map\<close> with \<open>unicode.ToLower\<close> drops no rune.)
\<close>

theorem intentDispatcher_missing_slot:
  assumes "IntentName (Intent (Body request)) = ''GetSchedule''"
    and "Slots (Intent (Body request)) ''collectionType'' = None"
    and "Getenv w ''STREET_ADDRESS'' = address"
  shows "(address = '''' \<longrightarrow>
            intentDispatcher w request = Inl (Panic ''the address is not configured''))
         \<and> (address \<noteq> '''' \<longrightarrow>
            intentDispatcher w request = Inr (handleGetSchedule w address ''''))
         \<and> (\<forall>err. getThirtyDaySchedule w address = Inl err \<longrightarrow>
            handleGetSchedule w address '''' = Inl err)
         \<and> (\<forall>occurrences. getThirtyDaySchedule w address = Inr occurrences \<longrightarrow>
            (\<exists>response. handleGetSchedule w address '''' = Inr response))
         \<and> (\<forall>occurrences.
              getThirtyDaySchedule w address = Inr occurrences
              \<and> (\<forall>oc\<in>set occurrences. GetName oc \<noteq> '''')
              \<and> (\<forall>s. s \<noteq> '''' \<longrightarrow> mapLower w s \<noteq> '''') \<longrightarrow>
            handleGetSchedule w address '''' =
              Inr \<lparr>Title = '' Curbside Pick Up'',
                    Text = ''Curbside pick up for  is not scheduled in the next 30 days.''\<rparr>)"
proof (intro conjI allI impI)
  assume "address = ''''"
  with assms(3) show "intentDispatcher w request = Inl (Panic ''the address is not configured'')"
    by (simp add: intentDispatcher_def)
next
  assume "address \<noteq> ''''"
  with assms show "intentDispatcher w request = Inr (handleGetSchedule w address '''')"
    by (simp add: intentDispatcher_def)
next
  fix err
  assume "getThirtyDaySchedule w address = Inl err"
  then show "handleGetSchedule w address '''' = Inl err"
    by (simp add: handleGetSchedule_def)
next
  fix occurrences
  assume "getThirtyDaySchedule w address = Inr occurrences"
  then show "\<exists>response. handleGetSchedule w address '''' = Inr response"
    by (simp add: handleGetSchedule_def split: option.splits)
next
  fix occurrences
  assume h: "getThirtyDaySchedule w address = Inr occurrences
             \<and> (\<forall>oc\<in>set occurrences. GetName oc \<noteq> '''')
             \<and> (\<forall>s. s \<noteq> '''' \<longrightarrow> mapLower w s \<noteq> '''')"
  then have lower: "\<forall>s. s \<noteq> '''' \<longrightarrow> mapLower w s \<noteq> ''''"
    by (elim conjE)
  from h have "\<forall>oc\<in>set occurrences. ToLower w (GetName oc) \<noteq> ToLower w ''''"
    by (simp add: ToLower_Nil ToLower_eq_Nil [OF lower])
  then have "scheduleLoop w (ToLower w '''') occurrences = None"
    by (rule scheduleLoop_no_match)
  with h show "handleGetSchedule w address '''' =
             Inr \<lparr>Title = '' Curbside Pick Up'',
                   Text = ''Curbside pick up for  is not scheduled in the next 30 days.''\<rparr>"
    by (simp add: handleGetSchedule_def NewSimpleResponse_def)
qed

theorem intentDispatcher_missing_slot_witness:
  "IntentName (Intent (Body (getScheduleRequest Map.empty))) = ''GetSchedule''
   \<and> Slots (Intent (Body (getScheduleRequest Map.empty))) ''collectionType'' = None
   \<and> Getenv marchWorld ''STREET_ADDRESS'' = ''1260 NW Maynard Rd''
   \<and> intentDispatcher marchWorld (getScheduleRequest Map.empty) =
       Inr (handleGetSchedule marchWorld ''1260 NW Maynard Rd'' '''')
   \<and> handleGetSchedule marchWorld ''1260 NW Maynard Rd'' '''' =
       Inr \<lparr>Title = '' Curbside Pick Up'',
             Text = ''Curbside pick up for  is not scheduled in the next 30 days.''\<rparr>
   \<and> getThirtyDaySchedule unknownAddressWorld ''1260 NW Maynard Rd'' =
       Inl (Error (''the address wasn'' @ [CHR 0x27] @ ''t found''))
   \<and> handleGetSchedule unknownAddressWorld ''1260 NW Maynard Rd'' '''' =
       Inl (Error (''the address wasn'' @ [CHR 0x27] @ ''t found''))
   \<and> Getenv unconfiguredWorld ''STREET_ADDRESS'' = ''''
   \<and> intentDispatcher unconfiguredWorld (getScheduleRequest Map.empty) =
       Inl (Panic ''the address is not configured'')"
proof -
  have c: "IntentName (Intent (Body (getScheduleRequest Map.empty))) = ''GetSchedule''"
    by (simp add: getScheduleRequest_def)
  have d: "Slots (Intent (Body (getScheduleRequest Map.empty))) ''collectionType'' = None"
    by (simp add: getScheduleRequest_def)
  have a: "Getenv marchWorld ''STREET_ADDRESS'' = ''1260 NW Maynard Rd''"
    by (simp add: marchWorld_def sampleWorld_def)
  have a': "Getenv unknownAddressWorld ''STREET_ADDRESS'' = ''1260 NW Maynard Rd''"
    by (simp add: unknownAddressWorld_def sampleWorld_def)
  have a'': "Getenv unconfiguredWorld ''STREET_ADDRESS'' = ''''"
    by (simp add: unconfiguredWorld_def)
  have b: "''1260 NW Maynard Rd'' \<noteq> ''''"
    by simp
  have f: "\<forall>oc\<in>set [\<lparr>day = ''2025-03-10'', name = ''Garbage''\<rparr>,
          \<lparr>day = ''2025-03-10'', name = ''Recycling''\<rparr>,
          \<lparr>day = ''2025-03-17'', name = ''Garbage''\<rparr>]. GetName oc \<noteq> ''''"
    by (simp add: GetName_def)
  have g: "\<forall>s. s \<noteq> '''' \<longrightarrow> mapLower marchWorld s \<noteq> ''''"
    by (simp add: marchWorld_def sampleWorld_def)
  have e: "getThirtyDaySchedule unknownAddressWorld ''1260 NW Maynard Rd'' =
       Inl (Error (''the address wasn'' @ [CHR 0x27] @ ''t found''))"
    by code_simp
  note m = intentDispatcher_missing_slot [OF c d a]
  note u = intentDispatcher_missing_slot [OF c d a']
  note p = intentDispatcher_missing_slot [OF c d a'']
  from m b have 1: "intentDispatcher marchWorld (getScheduleRequest Map.empty) =
       Inr (handleGetSchedule marchWorld ''1260 NW Maynard Rd'' '''')"
    by blast
  from m marchWorld_schedule f g
  have 2: "handleGetSchedule marchWorld ''1260 NW Maynard Rd'' '''' =
       Inr \<lparr>Title = '' Curbside Pick Up'',
             Text = ''Curbside pick up for  is not scheduled in the next 30 days.''\<rparr>"
    by blast
  from u e have 3: "handleGetSchedule unknownAddressWorld ''1260 NW Maynard Rd'' '''' =
       Inl (Error (''the address wasn'' @ [CHR 0x27] @ ''t found''))"
    by blast
  from p have 4: "intentDispatcher unconfiguredWorld (getScheduleRequest Map.empty) =
       Inl (Panic ''the address is not configured'')"
    by blast
  from c d a 1 2 e 3 a'' 4 show ?thesis by blast
qed

subsection \<open>Days that do not parse\<close>

lemma getLongYear_rest:
  "getLongYear s = Some (y, r) \<Longrightarrow> r = drop 4 s \<and> 4 \<le> length s"
  by (auto simp: getLongYear_def split: if_splits)

lemma skipDash_rest: "skipDash s = Some r \<Longrightarrow> r = drop 1 s \<and> 1 \<le> length s"
  by (auto simp: skipDash_def split: list.splits if_splits)

lemma getnum_rest: "getnum s True = Some (n, r) \<Longrightarrow> r = drop 2 s \<and> 2 \<le> length s"
  by (auto simp: getnum_def isDigit_def split: if_splits)

lemma parseFields_length:
  assumes "parseFields s = Some t"
  shows "length s = 10"
proof -
  from assms obtain y v1 v2 m v3 v4 d v5 where
    s: "getLongYear s = Some (y, v1)" "skipDash v1 = Some v2" "getnum v2 True = Some (m, v3)"
       "skipDash v3 = Some v4" "getnum v4 True = Some (d, v5)" "length v5 = 0"
    by (auto simp: parseFields_def split: option.splits if_splits)
  from s(1) have 1: "v1 = drop 4 s" using getLongYear_rest by blast
  from s(2) have 2: "v2 = drop 1 v1" using skipDash_rest by blast
  from s(3) have 3: "v3 = drop 2 v2" using getnum_rest by blast
  from s(4) have 4: "v4 = drop 1 v3" using skipDash_rest by blast
  from s(5) have 5: "v5 = drop 2 v4" "2 \<le> length v4" using getnum_rest by blast+
  from 5(2) have "10 \<le> length s" unfolding 4 3 2 1 by simp
  moreover from s(6) have "length s \<le> 10" unfolding 5(1) 4 3 2 1 by simp
  ultimately show ?thesis by simp
qed

lemma isLeap_leapYear: "isLeap (int y) = leapYear y"
  unfolding isLeap_def leapYear_def by presburger

lemma daysIn_monthLength:
  assumes "1 \<le> m" "m \<le> 12"
  shows "daysIn m (int y) = monthLength y m"
proof -
  from assms have "m = 1 \<or> m = 2 \<or> m = 3 \<or> m = 4 \<or> m = 5 \<or> m = 6 \<or> m = 7 \<or> m = 8
      \<or> m = 9 \<or> m = 10 \<or> m = 11 \<or> m = 12"
    by arith
  then show ?thesis
    by (elim disjE) (simp_all add: daysIn_def monthLength_def daysBefore_def isLeap_leapYear)
qed

lemma decimalValue4:
  "decimalValue [a, b, c, d] =
     digitVal a * 1000 + digitVal b * 100 + digitVal c * 10 + digitVal d"
  by (simp add: decimalValue_def digitVal_def)

lemma decimalValue2: "decimalValue [a, b] = digitVal a * 10 + digitVal b"
  by (simp add: decimalValue_def digitVal_def)

lemma parseFields_explicit:
  "(parseFields [a, b, c, d, e, f, g, h, i, j] = None)
     = (\<not> validDate [a, b, c, d, e, f, g, h, i, j])"
  by (auto simp: parseFields_def validDate_def getLongYear_def skipDash_def getnum_def
      isDigit_def isDecimal_def decimalValue4 decimalValue2 daysIn_monthLength Let_def
      simp del: of_nat_add of_nat_mult split: option.splits if_splits)

lemma length_ten:
  assumes "length s = 10"
  obtains a b c d e f g h i j where "s = [a, b, c, d, e, f, g, h, i, j]"
  using assms by (auto simp: length_Suc_conv eval_nat_numeral)

text \<open>\<open>time.Parse\<close> with the layout \<open>2006-01-02\<close> accepts exactly the valid dates.\<close>

lemma parseFields_None_iff: "parseFields s = None \<longleftrightarrow> \<not> validDate s"
proof (cases "length s = 10")
  case True
  then obtain a b c d e f g h i j where "s = [a, b, c, d, e, f, g, h, i, j]"
    by (rule length_ten)
  then show ?thesis using parseFields_explicit [of a b c d e f g h i j] by simp
next
  case False
  then have "parseFields s = None"
    using parseFields_length [of s] by (cases "parseFields s") simp_all
  moreover from False have "\<not> validDate s" by (simp add: validDate_def)
  ultimately show ?thesis by simp
qed

lemma Parse_valid: "validDate s \<Longrightarrow> snd (Parse s) = None"
  using parseFields_None_iff [of s] by (auto simp: Parse_def split: option.splits)

lemma Parse_invalid: "\<not> validDate s \<Longrightarrow> Parse s = (zeroTime, Some (ParseError ''2006-01-02'' s))"
  using parseFields_None_iff [of s] by (simp add: Parse_def)

lemma Format_zeroTime: "Format zeroTime = ''Monday, January 1, 0001''"
  by code_simp

text \<open>
  The string that claim C9 names is not what the zero time formats to: the layout element
  \<open>2006\<close> prints the year with four digits.
\<close>

theorem GetFormattedDay_invalid_day_counterexample:
  "\<not> validDate ''next Tuesday''
   \<and> GetFormattedDay \<lparr>day = ''next Tuesday'', name = ''Garbage''\<rparr> \<noteq> ''Monday, January 1, 1''"
  by code_simp

text \<open>
  Claim C9, amended. For an occurrence whose day is not a valid \<open>YYYY-MM-DD\<close> date,
  \<open>GetFormattedDay\<close> signals nothing: the parse error is dropped, the zero time is
  formatted, and the result is the fixed string \<open>Monday, January 1, 0001\<close>.
\<close>

theorem GetFormattedDay_invalid_day:
  assumes "\<not> validDate (day s)"
  shows "GetFormattedDay s = ''Monday, January 1, 0001''"
  using assms by (simp add: GetFormattedDay_def Parse_invalid Format_zeroTime)

theorem GetFormattedDay_invalid_day_witness:
  "\<not> validDate (day \<lparr>day = ''2025-02-30'', name = ''Garbage''\<rparr>)
   \<and> GetFormattedDay \<lparr>day = ''2025-02-30'', name = ''Garbage''\<rparr> = ''Monday, January 1, 0001''"
proof -
  have h: "\<not> validDate (day \<lparr>day = ''2025-02-30'', name = ''Garbage''\<rparr>)"
    by code_simp
  from h GetFormattedDay_invalid_day [OF h] show ?thesis by (rule conjI)
qed

subsection \<open>The list of services in the \<open>WhatIsNext\<close> answer\<close>

lemma joinLoop_rest:
  assumes "xs \<noteq> []" and "0 < i" and "i + length xs = n"
  shows "joinLoop w n i xs msg =
           msg @ concat (map (\<lambda>s. '', '' @ ToLower w s) (butlast xs))
               @ '', and '' @ ToLower w (last xs)"
  using assms
proof (induction xs arbitrary: i msg)
  case Nil
  then show ?case by simp
next
  case (Cons x xs)
  show ?case
  proof (cases "xs = []")
    case True
    with Cons.prems show ?thesis by simp
  next
    case False
    from False obtain y ys where "xs = y # ys" by (cases xs) auto
    with Cons.prems have "i + 1 \<noteq> n" "0 < Suc i" "Suc i + length xs = n" by simp_all
    with Cons.IH [OF False, of "Suc i"] False show ?thesis by simp
  qed
qed

text \<open>
  What the second loop builds: one name gets a second blank before it; with two names or
  more, every name but the last is preceded by a comma, the first one too, and the message
  does not end in a full stop.
\<close>

lemma scheduleMessage_single:
  "scheduleMessage w d [x] =
     ''On '' @ d @ '', there will be curb side pick up for:  '' @ ToLower w x @ ''.''"
  by (simp add: scheduleMessage_def)

lemma scheduleMessage_many:
  assumes "2 \<le> length names"
  shows "scheduleMessage w d names =
           ''On '' @ d @ '', there will be curb side pick up for: ''
             @ concat (map (\<lambda>s. '', '' @ ToLower w s) (butlast (sort names)))
             @ '', and '' @ ToLower w (last (sort names))"
proof -
  from assms have "2 \<le> length (sort names)" by simp
  then obtain x ys where s: "sort names = x # ys" and ys: "ys \<noteq> []"
    by (cases "sort names"; cases "tl (sort names)") auto
  have n: "length names = Suc (length ys)"
    using s by (metis length_Cons length_sort)
  have "joinLoop w (length names) (Suc 0) ys
          (''On '' @ d @ '', there will be curb side pick up for: '' @ '', '' @ ToLower w x) =
        (''On '' @ d @ '', there will be curb side pick up for: '' @ '', '' @ ToLower w x)
          @ concat (map (\<lambda>s. '', '' @ ToLower w s) (butlast ys))
          @ '', and '' @ ToLower w (last ys)"
    by (rule joinLoop_rest) (use ys n in simp_all)
  with ys n show ?thesis
    unfolding scheduleMessage_def s by simp
qed

text \<open>
  Claim C1, on the code. The collected codes are sorted and lower-cased, but the
  punctuation is not the stated one: one item comes out after two blanks, and lists of two
  or three items start with a comma and lack the final full stop.
\<close>

theorem scheduleMessage_punctuation:
  "scheduleMessage marchWorld ''Monday, March 10, 2025'' [''Garbage''] =
     ''On Monday, March 10, 2025, there will be curb side pick up for:  garbage.''
   \<and> scheduleMessage marchWorld ''Monday, March 10, 2025'' [''Recycling'', ''Garbage''] =
     ''On Monday, March 10, 2025, there will be curb side pick up for: , garbage, and recycling''
   \<and> scheduleMessage marchWorld ''Monday, March 10, 2025''
       [''yardwaste'', ''Recycling'', ''Garbage''] =
     ''On Monday, March 10, 2025, there will be curb side pick up for: , garbage, recycling, and yardwaste''"
  by code_simp

text \<open>
  Claim C2, on the code. For the specification's event list the title is
  \<open>Curbside Pick Up Schedule\<close>, and the answer is not the stated one: it has a comma
  before \<open>garbage\<close> and no full stop.
\<close>

theorem handleWhatIsNext_march:
  "handleWhatIsNext marchWorld ''1260 NW Maynard Rd'' =
     Inr \<lparr>Title = ''Curbside Pick Up Schedule'',
           Text = ''On Monday, March 10, 2025, there will be curb side pick up for: , garbage, and recycling''\<rparr>
   \<and> handleWhatIsNext marchWorld ''1260 NW Maynard Rd'' \<noteq>
     Inr \<lparr>Title = ''Curbside Pick Up Schedule'',
           Text = ''On Monday, March 10, 2025, there will be curb side pick up for: garbage, and recycling.''\<rparr>"
  by code_simp

subsection \<open>A transport failure of the events request\<close>

lemma getThirtyDaySchedule_Get_failed:
  assumes "getAddressID w address = Inr addressID"
    and "Get w (scheduleURL addressID (after w) (before w)) = Inl err"
  shows "getThirtyDaySchedule w address = Inr []"
  using assms by (simp add: getThirtyDaySchedule_def)

lemma getAddressID_Get_failed:
  assumes "Get w (addressURL address) = Inl err"
  shows "getAddressID w address = Inl err"
  using assms by (simp add: getAddressID_def)

text \<open>An error that the fetch does return goes through both handlers unchanged.\<close>

lemma handlers_propagate:
  assumes "getThirtyDaySchedule w address = Inl err"
  shows "handleWhatIsNext w address = Inl err
         \<and> handleGetSchedule w address serviceType = Inl err"
  using assms by (simp add: handleWhatIsNext_def handleGetSchedule_def)

text \<open>
  Claim C3, on the code. When the events request fails in transport, the fetch reports
  success with no occurrence, and the handlers answer as if nothing were scheduled.
\<close>

theorem getThirtyDaySchedule_transport_failure:
  "getAddressID timeoutWorld ''1260 NW Maynard Rd'' = Inr ''PLACE''
   \<and> Get timeoutWorld (scheduleURL ''PLACE'' (after timeoutWorld) (before timeoutWorld)) =
       Inl (Error ''context deadline exceeded'')
   \<and> getThirtyDaySchedule timeoutWorld ''1260 NW Maynard Rd'' = Inr []
   \<and> handleWhatIsNext timeoutWorld ''1260 NW Maynard Rd'' =
       Inr \<lparr>Title = ''No Curbside Pick Up'',
             Text = ''No curbside pick up is scheduled in the next 30 days.''\<rparr>
   \<and> handleGetSchedule timeoutWorld ''1260 NW Maynard Rd'' ''garbage'' =
       Inr \<lparr>Title = ''garbage Curbside Pick Up'',
             Text = ''Curbside pick up for garbage is not scheduled in the next 30 days.''\<rparr>"
  by code_simp

end
